theory Spec2Isabelle
  imports Complex_Main "HOL-Library.Multiset"
begin

section \<open>Chat Management API (scr.py)\<close>

text \<open>
  The five request handlers of \<^verbatim>\<open>scr.py\<close> as functions on an explicit state: the
  documents of the \<^verbatim>\<open>chats\<close> collection, a log of the round trips made to the
  document store and a log of the requests sent to the summarization API. Python
  exceptions are values: a handler returns \<open>Inl\<close> of the exception it raises or
  \<open>Inr\<close> of the dictionary it returns.
\<close>

subsection \<open>Data model\<close>

text \<open>
  A \<^verbatim>\<open>datetime\<close> is an instant, counted in microseconds, the resolution of
  Python's \<^verbatim>\<open>datetime\<close>. The field \<^verbatim>\<open>text\<close> of a message is \<open>msg_text\<close>.
\<close>

type_synonym datetime = int

record Message =
  sender :: string
  msg_text :: string
  timestamp :: datetime

record Chat =
  user_id :: string
  messages :: "Message list"

text \<open>
  \<^verbatim>\<open>chat_data\<close> is \<^verbatim>\<open>chat.dict()\<close> with the key \<^verbatim>\<open>created_at\<close>; a document of the
  collection has the key \<^verbatim>\<open>_id\<close> as well. The identifier is an \<open>ObjectId\<close> in the
  store and a string in a response.
\<close>

record chat_data = Chat +
  created_at :: datetime

record 'i document = chat_data +
  ident :: 'i

subsection \<open>Identifiers\<close>

text \<open>
  Modelled from the spec: \<^verbatim>\<open>bson.objectid.ObjectId\<close>, which the source imports, is
  the store's identifier scheme, "a fixed-length hexadecimal token": twelve bytes,
  written as 24 hexadecimal digits. An \<open>ObjectId\<close> is held as its lower-case digits,
  which is what \<^verbatim>\<open>str\<close> of it gives; \<^verbatim>\<open>ObjectId(s)\<close> reads the digits of \<open>s\<close> in
  either case and raises \<^verbatim>\<open>InvalidId\<close> on any other string.
\<close>

datatype ObjectId = Oid string

definition is_lower_hex :: "char \<Rightarrow> bool" where
  "is_lower_hex c = (c \<in> set ''0123456789abcdef'')"

definition is_hex :: "char \<Rightarrow> bool" where
  "is_hex c = (is_lower_hex c \<or> c \<in> set ''ABCDEF'')"

definition lower :: "char \<Rightarrow> char" where
  "lower c =
     (if c = CHR ''A'' then CHR ''a'' else if c = CHR ''B'' then CHR ''b''
      else if c = CHR ''C'' then CHR ''c'' else if c = CHR ''D'' then CHR ''d''
      else if c = CHR ''E'' then CHR ''e'' else if c = CHR ''F'' then CHR ''f''
      else c)"

definition is_valid :: "string \<Rightarrow> bool" where
  "is_valid oid = (length oid = 24 \<and> list_all is_hex oid)"

definition str_ObjectId :: "ObjectId \<Rightarrow> string" where
  "str_ObjectId i = (case i of Oid h \<Rightarrow> h)"


subsection \<open>Exceptions and the handlers' monad\<close>

text \<open>
  \<^verbatim>\<open>HTTPException\<close> is a subclass of \<^verbatim>\<open>Exception\<close>, so the clause
  \<^verbatim>\<open>except Exception as e\<close> catches it like any other exception.
  \<open>RequestValidationError\<close> is what the framework raises, before the handler's body
  runs, for a query parameter outside its declared bounds.
\<close>

datatype exc =
  HTTPException (exc_status: nat) (exc_detail: string)
| RequestValidationError
| Exception string

datatype store_op = Insert_one | Find_one | Count_documents | Find_to_list | Delete_one

record payload =
  model :: string
  chat_messages :: "(string \<times> string) list"
  temperature :: real
  max_tokens :: nat

record request =
  url :: string
  headers :: "(string \<times> string) list"
  json :: payload

text \<open>
  The response of the summarization API: its status code and what
  \<^verbatim>\<open>response.json()["choices"][0]["message"]["content"]\<close> evaluates to, the text or
  the exception of a malformed body.
\<close>

record response =
  status_code :: nat
  content :: "exc + string"

record state =
  collection :: "ObjectId document list"
  store_log :: "store_op list"
  api_log :: "request list"

text \<open>
  What the process gets from outside the source: \<^verbatim>\<open>str(e)\<close> of an exception (the
  framework's \<^verbatim>\<open>__str__\<close>), the environment variable \<^verbatim>\<open>MISTRAL_API_KEY\<close> and
  the answer of the summarization API to a request (a response, or the exception of
  a timeout or a connection failure).
\<close>

record env =
  str_exc :: "exc \<Rightarrow> string"
  MISTRAL_API_KEY :: "string option"
  api :: "request \<Rightarrow> exc + response"

type_synonym 'a io = "state \<Rightarrow> (exc + 'a) \<times> state"

definition return :: "'a \<Rightarrow> 'a io" where
  "return v s = (Inr v, s)"

definition raise :: "exc \<Rightarrow> 'a io" where
  "raise e s = (Inl e, s)"

definition bind :: "'a io \<Rightarrow> ('a \<Rightarrow> 'b io) \<Rightarrow> 'b io" where
  "bind m f s = (case m s of (Inl e, s') \<Rightarrow> (Inl e, s') | (Inr v, s') \<Rightarrow> f v s')"

text \<open>\<^verbatim>\<open>try: m except Exception as e: h(e)\<close>: every exception raised in \<open>m\<close> reaches \<open>h\<close>.\<close>

definition try_except :: "'a io \<Rightarrow> (exc \<Rightarrow> 'a io) \<Rightarrow> 'a io" where
  "try_except m h s = (case m s of (Inl e, s') \<Rightarrow> h e s' | (Inr v, s') \<Rightarrow> (Inr v, s'))"

text \<open>
  The status of the HTTP response the framework builds from a handler's outcome: 200
  for a returned dictionary, the exception's own status for an \<^verbatim>\<open>HTTPException\<close>,
  422 for a request that fails validation and 500 for any other exception.
\<close>

fun http_status :: "exc + 'a \<Rightarrow> nat" where
  "http_status (Inr v) = 200"
| "http_status (Inl (HTTPException c d)) = c"
| "http_status (Inl RequestValidationError) = 422"
| "http_status (Inl (Exception m)) = 500"

subsection \<open>Strings\<close>

definition digit_char :: "nat \<Rightarrow> char" where
  "digit_char d = ''0123456789'' ! d"

fun str_nat :: "nat \<Rightarrow> string" where
  "str_nat n = (if n < 10 then [digit_char n] else str_nat (n div 10) @ [digit_char (n mod 10)])"

declare str_nat.simps [simp del]

definition str_int :: "int \<Rightarrow> string" where
  "str_int i = (if i < 0 then ''-'' @ str_nat (nat (- i)) else str_nat (nat i))"

text \<open>\<^verbatim>\<open>sep.join(xs)\<close>\<close>

fun join :: "string \<Rightarrow> string list \<Rightarrow> string" where
  "join sep [] = []"
| "join sep [x] = x"
| "join sep (x # y # ys) = x @ sep @ join sep (y # ys)"

text \<open>The truth value of an optional string: \<^verbatim>\<open>None\<close> and \<^verbatim>\<open>""\<close> are false.\<close>

definition truthy :: "string option \<Rightarrow> bool" where
  "truthy u = (case u of None \<Rightarrow> False | Some v \<Rightarrow> v \<noteq> [])"

subsection \<open>The document store\<close>

text \<open>
  Modelled from the spec: the document store, "the external persistence layer
  holding Chat records, queried/filtered/paginated by field", which the source
  reaches through the driver's \<^verbatim>\<open>collection\<close> object. These are the collection's
  methods that the handlers call. A filter dictionary has at most the keys \<^verbatim>\<open>_id\<close>
  and \<^verbatim>\<open>user_id\<close>. Every method that reaches the store adds an entry to
  \<open>store_log\<close>.
\<close>

record query =
  q_id :: "ObjectId option"
  q_user_id :: "string option"

definition matches :: "query \<Rightarrow> ObjectId document \<Rightarrow> bool" where
  "matches q d =
     ((case q_id q of None \<Rightarrow> True | Some i \<Rightarrow> ident d = i) \<and>
      (case q_user_id q of None \<Rightarrow> True | Some u \<Rightarrow> user_id d = u))"

definition logged :: "store_op \<Rightarrow> state \<Rightarrow> state" where
  "logged x s = s\<lparr>store_log := store_log s @ [x]\<rparr>"




definition find_one :: "query \<Rightarrow> (ObjectId document option) io" where
  "find_one q s = (Inr (find (matches q) (collection s)), logged Find_one s)"

definition count_documents :: "query \<Rightarrow> int io" where
  "count_documents q s =
     (Inr (int (length (filter (matches q) (collection s)))), logged Count_documents s)"

fun remove_first :: "('a \<Rightarrow> bool) \<Rightarrow> 'a list \<Rightarrow> 'a list" where
  "remove_first P [] = []"
| "remove_first P (x # xs) = (if P x then xs else x # remove_first P xs)"

record delete_result =
  deleted_count :: nat

definition delete_one :: "query \<Rightarrow> delete_result io" where
  "delete_one q s =
     (case find (matches q) (collection s) of
        None \<Rightarrow> (Inr \<lparr>deleted_count = 0\<rparr>, logged Delete_one s)
      | Some d \<Rightarrow> (Inr \<lparr>deleted_count = 1\<rparr>,
          (logged Delete_one s)\<lparr>collection := remove_first (matches q) (collection s)\<rparr>))"

text \<open>
  A cursor is the options of a query; \<^verbatim>\<open>skip\<close>, \<^verbatim>\<open>limit\<close> and \<^verbatim>\<open>sort\<close> set an
  option each, in whatever order they are chained, and \<^verbatim>\<open>to_list\<close> runs the
  query: the store filters, sorts, skips and limits, in this order. The sort is by
  \<^verbatim>\<open>created_at\<close>, in the direction given (\<open>-1\<close> descending), and keeps the
  collection's order among documents created at the same time.
\<close>

record cursor =
  c_filter :: query
  c_skip :: int
  c_limit :: int
  c_sort :: "int option"

definition find_cursor :: "query \<Rightarrow> cursor" where
  "find_cursor q = \<lparr>c_filter = q, c_skip = 0, c_limit = 0, c_sort = None\<rparr>"

definition cursor_skip :: "int \<Rightarrow> cursor \<Rightarrow> cursor" where
  "cursor_skip n c = c\<lparr>c_skip := n\<rparr>"

definition cursor_limit :: "int \<Rightarrow> cursor \<Rightarrow> cursor" where
  "cursor_limit n c = c\<lparr>c_limit := n\<rparr>"

definition cursor_sort :: "int \<Rightarrow> cursor \<Rightarrow> cursor" where
  "cursor_sort direction c = c\<lparr>c_sort := Some direction\<rparr>"

definition sorted_docs :: "int option \<Rightarrow> ObjectId document list \<Rightarrow> ObjectId document list" where
  "sorted_docs srt ds =
     (case srt of
        None \<Rightarrow> ds
      | Some direction \<Rightarrow>
          if direction < 0 then sort_key (\<lambda>d. - created_at d) ds
          else sort_key created_at ds)"

definition limited :: "int \<Rightarrow> 'a list \<Rightarrow> 'a list" where
  "limited n ds = (if n = 0 then ds else take (nat \<bar>n\<bar>) ds)"

definition to_list :: "cursor \<Rightarrow> int \<Rightarrow> (ObjectId document list) io" where
  "to_list c len s =
     (Inr (take (nat len)
            (limited (c_limit c)
              (drop (nat (c_skip c))
                (sorted_docs (c_sort c) (filter (matches (c_filter c)) (collection s)))))),
      logged Find_to_list s)"

subsection \<open>The handlers\<close>

text \<open>\<^verbatim>\<open>ObjectId(s)\<close>\<close>

definition ObjectId :: "string \<Rightarrow> ObjectId io" where
  "ObjectId s = (if is_valid s then return (Oid (map lower s)) else raise (Exception ''InvalidId''))"

text \<open>The loop body \<^verbatim>\<open>chat["_id"] = str(chat["_id"])\<close>.\<close>

definition stringify_id :: "ObjectId document \<Rightarrow> string document" where
  "stringify_id d =
     \<lparr>user_id = user_id d, messages = messages d, created_at = created_at d,
      ident = str_ObjectId (ident d)\<rparr>"



definition get_chat :: "env \<Rightarrow> string \<Rightarrow> (string document) io" where
  "get_chat ev chat_id =
     try_except
       (if \<not> is_valid chat_id then raise (HTTPException 400 ''Invalid chat ID'')
        else
          bind (ObjectId chat_id) (\<lambda>oid.
          bind (find_one \<lparr>q_id = Some oid, q_user_id = None\<rparr>) (\<lambda>chat.
            case chat of
              Some c \<Rightarrow> return (stringify_id c)
            | None \<Rightarrow> raise (HTTPException 404 ''Chat not found''))))
       (\<lambda>e. raise (HTTPException 500 (''Server error: '' @ str_exc ev e)))"

definition MISTRAL_API_URL :: string where
  "MISTRAL_API_URL = ''https://api.mistral.ai/v1/chat/completions''"

text \<open>\<^verbatim>\<open>client.post(url, json=payload, headers=headers)\<close>\<close>

definition client_post :: "env \<Rightarrow> string \<Rightarrow> payload \<Rightarrow> (string \<times> string) list \<Rightarrow> response io" where
  "client_post ev u p h s =
     (let r = \<lparr>url = u, headers = h, json = p\<rparr>
      in (api ev r, s\<lparr>api_log := api_log s @ [r]\<rparr>))"

definition lift :: "exc + 'a \<Rightarrow> 'a io" where
  "lift r s = (r, s)"

record summary_response =
  sm_conversation_id :: string
  sm_summary :: string
  sm_summary_length :: nat

definition summarize_chat :: "env \<Rightarrow> string \<Rightarrow> summary_response io" where
  "summarize_chat ev conversation_id =
     try_except
       (if \<not> is_valid conversation_id then raise (HTTPException 400 ''Invalid conversation ID'')
        else
          bind (ObjectId conversation_id) (\<lambda>oid.
          bind (find_one \<lparr>q_id = Some oid, q_user_id = None\<rparr>) (\<lambda>chat.
            case chat of
              None \<Rightarrow> raise (HTTPException 404 ''Chat not found'')
            | Some c \<Rightarrow>
                let chat_text = join [CHR 0x0A] (map msg_text (messages c));
                    hdrs = [(''Authorization'', ''Bearer '' @
                               (case MISTRAL_API_KEY ev of None \<Rightarrow> ''None'' | Some k \<Rightarrow> k)),
                            (''Content-Type'', ''application/json'')];
                    pl = \<lparr>model = ''mistral-large-latest'',
                          chat_messages =
                            [(''system'', ''Summarize conversations concisely.''),
                             (''user'', ''Summarize this conversation:'' @ [CHR 0x0A, CHR 0x0A] @ chat_text)],
                          temperature = 7 / 10,
                          max_tokens = 300\<rparr>
                in bind (client_post ev MISTRAL_API_URL pl hdrs) (\<lambda>resp.
                   if status_code resp \<noteq> 200
                   then raise (HTTPException 500
                          (''Summarization failed: '' @ str_nat (status_code resp)))
                   else
                     bind (lift (content resp)) (\<lambda>summary.
                     return \<lparr>sm_conversation_id = conversation_id, sm_summary = summary,
                             sm_summary_length = length summary\<rparr>)))))
       (\<lambda>e. raise (HTTPException 500 (''Summarization error: '' @ str_exc ev e)))"

text \<open>
  \<^verbatim>\<open>a / b\<close> on integers and \<^verbatim>\<open>math.ceil\<close>. The quotient, a double in Python, is
  the exact real here.
\<close>

definition truediv :: "int \<Rightarrow> int \<Rightarrow> real io" where
  "truediv a b =
     (if b = 0 then raise (Exception ''division by zero'')
      else return (real_of_int a / real_of_int b))"

definition math_ceil :: "real \<Rightarrow> int" where
  "math_ceil x = \<lceil>x\<rceil>"

record user_chats_response =
  uc_user_id :: string
  chats :: "string document list"
  uc_page :: int
  uc_limit :: int
  total_chats :: int
  total_pages :: int

text \<open>
  \<^verbatim>\<open>page\<close> is declared \<^verbatim>\<open>Query(1, ge=1)\<close> and \<^verbatim>\<open>limit\<close> \<^verbatim>\<open>Query(10, ge=1, le=100)\<close>:
  the framework rejects a value outside these bounds before the body runs.
\<close>

definition get_user_chats :: "env \<Rightarrow> string \<Rightarrow> int \<Rightarrow> int \<Rightarrow> user_chats_response io" where
  "get_user_chats ev uid page limit =
     (if page \<ge> 1 \<and> limit \<ge> 1 \<and> limit \<le> 100
      then
        try_except
          (bind (count_documents \<lparr>q_id = None, q_user_id = Some uid\<rparr>) (\<lambda>total.
           bind (truediv total limit) (\<lambda>quotient.
             let pages = math_ceil quotient
             in if page > pages \<and> pages > 0
                then raise (HTTPException 404
                       (''Page '' @ str_int page @ '' does not exist. Total pages: '' @ str_int pages))
                else
                  let cur = cursor_sort (- 1) (cursor_limit limit (cursor_skip ((page - 1) * limit)
                              (find_cursor \<lparr>q_id = None, q_user_id = Some uid\<rparr>)))
                  in bind (to_list cur limit) (\<lambda>found.
                     return \<lparr>uc_user_id = uid, chats = map stringify_id found,
                             uc_page = page, uc_limit = limit,
                             total_chats = total, total_pages = pages\<rparr>))))
          (\<lambda>e. raise (HTTPException 500 (''Error retrieving chats: '' @ str_exc ev e)))
      else raise RequestValidationError)"

record delete_response =
  del_message :: string
  del_deleted_count :: nat

definition delete_chat :: "env \<Rightarrow> string \<Rightarrow> string option \<Rightarrow> delete_response io" where
  "delete_chat ev conversation_id uid =
     try_except
       (if \<not> is_valid conversation_id then raise (HTTPException 400 ''Invalid chat ID'')
        else
          bind (ObjectId conversation_id) (\<lambda>oid.
            let delete_query = \<lparr>q_id = Some oid, q_user_id = None\<rparr>;
                delete_query = (if truthy uid then delete_query\<lparr>q_user_id := uid\<rparr> else delete_query)
            in bind (delete_one delete_query) (\<lambda>result.
               if deleted_count result = 0
               then raise (HTTPException 404
                      (''Chat not found'' @
                       (if truthy uid then '' or not associated with the specified user'' else [])))
               else return \<lparr>del_message = ''Chat deleted successfully!'',
                             del_deleted_count = deleted_count result\<rparr>)))
       (\<lambda>e. raise (HTTPException 500 (''Error deleting chat: '' @ str_exc ev e)))"

subsection \<open>Example environment and states\<close>

text \<open>\<^verbatim>\<open>str(e)\<close> as the framework defines it for \<^verbatim>\<open>HTTPException\<close>: status, colon, detail.\<close>

fun example_str :: "exc \<Rightarrow> string" where
  "example_str (HTTPException c d) = str_nat c @ '': '' @ d"
| "example_str RequestValidationError = ''validation error''"
| "example_str (Exception m) = m"

definition example_env :: env where
  "example_env =
     \<lparr>str_exc = example_str, MISTRAL_API_KEY = Some ''k'',
      api = (\<lambda>r. Inr \<lparr>status_code = 200, content = Inr ''A greeting.''\<rparr>)\<rparr>"


definition example_id :: string where
  "example_id = ''0123456789abcdef01234567''"



definition example_doc :: "ObjectId document" where
  "example_doc =
     \<lparr>user_id = ''u1'',
      messages = [\<lparr>sender = ''a'', msg_text = ''hi'', timestamp = 5000\<rparr>,
                  \<lparr>sender = ''b'', msg_text = ''yo'', timestamp = 6000\<rparr>],
      created_at = 7000, ident = Oid example_id\<rparr>"

definition one_chat :: state where
  "one_chat = \<lparr>collection = [example_doc], store_log = [], api_log = []\<rparr>"

text \<open>
  Fifteen chats of user \<open>u2\<close>, the \<open>n\<close>-th created \<open>n\<close> milliseconds after the
  epoch, with one message.
\<close>

definition nth_doc :: "nat \<Rightarrow> ObjectId document" where
  "nth_doc n =
     \<lparr>user_id = ''u2'',
      messages = [\<lparr>sender = ''a'', msg_text = ''m'' @ [digit_char (n mod 10)],
                   timestamp = int n * 1000\<rparr>],
      created_at = int n * 1000,
      ident = Oid (replicate 22 (CHR ''0'') @ [digit_char (n div 10), digit_char (n mod 10)])\<rparr>"

definition fifteen_chats :: state where
  "fifteen_chats = \<lparr>collection = map nth_doc [0..<15], store_log = [], api_log = []\<rparr>"

section \<open>Properties\<close>

subsection \<open>Auxiliary facts\<close>

lemmas io_defs = return_def raise_def bind_def try_except_def lift_def

lemma matches_id [simp]:
  "matches \<lparr>q_id = Some i, q_user_id = None\<rparr> = (\<lambda>d. ident d = i)"
  by (rule ext) (simp add: matches_def)

lemma matches_user [simp]:
  "matches \<lparr>q_id = None, q_user_id = Some u\<rparr> = (\<lambda>d. user_id d = u)"
  by (rule ext) (simp add: matches_def)

lemma matches_both [simp]:
  "matches \<lparr>q_id = Some i, q_user_id = Some u\<rparr> = (\<lambda>d. ident d = i \<and> user_id d = u)"
  by (rule ext) (simp add: matches_def)

lemma not_an_id_invalid: "\<not> is_valid ''not-an-id''"
  by (simp add: is_valid_def)

lemma example_id_valid: "is_valid example_id"
  by (simp add: is_valid_def example_id_def is_hex_def is_lower_hex_def)

lemma example_id_lower: "map lower example_id = example_id"
  by (simp add: example_id_def lower_def)

text \<open>A malformed identifier: the 400 raised inside \<^verbatim>\<open>try\<close> is caught and becomes a 500.\<close>

lemma get_chat_invalid:
  "\<not> is_valid c \<Longrightarrow> get_chat ev c s =
     (Inl (HTTPException 500
        (''Server error: '' @ str_exc ev (HTTPException 400 ''Invalid chat ID''))), s)"
  by (simp add: get_chat_def io_defs)

lemma summarize_chat_invalid:
  "\<not> is_valid c \<Longrightarrow> summarize_chat ev c s =
     (Inl (HTTPException 500
        (''Summarization error: '' @ str_exc ev (HTTPException 400 ''Invalid conversation ID''))), s)"
  by (simp add: summarize_chat_def io_defs)

lemma delete_chat_invalid:
  "\<not> is_valid c \<Longrightarrow> delete_chat ev c u s =
     (Inl (HTTPException 500
        (''Error deleting chat: '' @ str_exc ev (HTTPException 400 ''Invalid chat ID''))), s)"
  by (simp add: delete_chat_def io_defs)

text \<open>A well-formed identifier: \<^verbatim>\<open>get_chat\<close> is one lookup by identifier.\<close>

lemma get_chat_valid:
  "is_valid c \<Longrightarrow> get_chat ev c s =
     (case find (\<lambda>d. ident d = Oid (map lower c)) (collection s) of
        Some d \<Rightarrow> (Inr (stringify_id d), logged Find_one s)
      | None \<Rightarrow>
          (Inl (HTTPException 500
             (''Server error: '' @ str_exc ev (HTTPException 404 ''Chat not found''))),
           logged Find_one s))"
  by (simp add: get_chat_def io_defs ObjectId_def find_one_def split: option.splits)

lemma summarize_chat_absent:
  "is_valid c \<Longrightarrow> find (\<lambda>d. ident d = Oid (map lower c)) (collection s) = None \<Longrightarrow>
   summarize_chat ev c s =
     (Inl (HTTPException 500
        (''Summarization error: '' @ str_exc ev (HTTPException 404 ''Chat not found''))),
      logged Find_one s)"
  by (simp add: summarize_chat_def io_defs ObjectId_def find_one_def)

subsection \<open>Identifier validation\<close>

text \<open>
  C1. The claim: a malformed identifier makes \<^verbatim>\<open>get_chat\<close>, \<^verbatim>\<open>summarize_chat\<close> and
  \<^verbatim>\<open>delete_chat\<close> fail with status 400, before any access to the store. The code at
  the malformed identifier \<^verbatim>\<open>not-an-id\<close>, for every environment, state and owner:
  the three handlers leave the state as it is, the store's log included, but the
  response has status 500, because the \<^verbatim>\<open>HTTPException\<close> with status 400 is raised
  inside the \<^verbatim>\<open>try\<close> whose \<^verbatim>\<open>except Exception\<close> re-raises it with status 500.
\<close>

theorem malformed_id_answers_500:
  "http_status (fst (get_chat ev ''not-an-id'' s)) = 500 \<and>
   http_status (fst (summarize_chat ev ''not-an-id'' s)) = 500 \<and>
   http_status (fst (delete_chat ev ''not-an-id'' u s)) = 500 \<and>
   snd (get_chat ev ''not-an-id'' s) = s \<and>
   snd (summarize_chat ev ''not-an-id'' s) = s \<and>
   snd (delete_chat ev ''not-an-id'' u s) = s"
  by (simp add: get_chat_invalid summarize_chat_invalid delete_chat_invalid not_an_id_invalid)

text \<open>
  C2. The claim: a well-formed identifier with no record makes \<^verbatim>\<open>get_chat\<close> and
  \<^verbatim>\<open>summarize_chat\<close> fail with status 404. The code on an empty collection, at a
  well-formed identifier: both handlers answer with status 500, the 404 being
  caught by the same \<^verbatim>\<open>except Exception\<close>.
\<close>

theorem absent_chat_answers_500:
  "http_status (fst (get_chat ev example_id (s\<lparr>collection := []\<rparr>))) = 500 \<and>
   http_status (fst (summarize_chat ev example_id (s\<lparr>collection := []\<rparr>))) = 500"
  by (simp add: get_chat_valid summarize_chat_absent example_id_valid)

subsection \<open>Pagination\<close>

lemma to_list_page:
  "1 \<le> limit \<Longrightarrow>
   to_list (cursor_sort (- 1) (cursor_limit limit (cursor_skip k (find_cursor q)))) limit s =
     (Inr (take (nat limit) (drop (nat k)
        (sort_key (\<lambda>d. - created_at d) (filter (matches q) (collection s))))),
      logged Find_to_list s)"
  by (simp add: to_list_def cursor_sort_def cursor_limit_def cursor_skip_def find_cursor_def
      sorted_docs_def limited_def)

text \<open>The handler on parameters within their declared bounds.\<close>

lemma get_user_chats_valid:
  assumes "1 \<le> page" "1 \<le> limit" "limit \<le> 100"
  shows "get_user_chats ev uid page limit s =
     (let total = int (length (filter (\<lambda>d. user_id d = uid) (collection s)));
          pages = \<lceil>real_of_int total / real_of_int limit\<rceil>
      in if page > pages \<and> pages > 0
         then (Inl (HTTPException 500 (''Error retrieving chats: '' @ str_exc ev
                 (HTTPException 404 (''Page '' @ str_int page @
                    '' does not exist. Total pages: '' @ str_int pages)))),
               logged Count_documents s)
         else (Inr \<lparr>uc_user_id = uid,
                    chats = map stringify_id (take (nat limit) (drop (nat ((page - 1) * limit))
                      (sort_key (\<lambda>d. - created_at d)
                         (filter (\<lambda>d. user_id d = uid) (collection s))))),
                    uc_page = page, uc_limit = limit, total_chats = total, total_pages = pages\<rparr>,
               logged Find_to_list (logged Count_documents s)))"
  using assms
  by (simp add: get_user_chats_def io_defs count_documents_def truediv_def math_ceil_def
      to_list_page Let_def logged_def)

text \<open>A user without chats: every page within bounds is an empty page, with no error.\<close>

lemma get_user_chats_no_chats:
  assumes "1 \<le> page" "1 \<le> limit" "limit \<le> 100"
    and "filter (\<lambda>d. user_id d = uid) (collection s) = []"
  shows "fst (get_user_chats ev uid page limit s) =
     Inr \<lparr>uc_user_id = uid, chats = [], uc_page = page, uc_limit = limit,
          total_chats = 0, total_pages = 0\<rparr>"
  using assms by (simp add: get_user_chats_valid)

lemma get_user_chats_success:
  assumes "fst (get_user_chats ev uid page limit s) = Inr r"
  shows "1 \<le> page \<and> 1 \<le> limit \<and> limit \<le> 100"
    and "total_chats r = int (length (filter (\<lambda>d. user_id d = uid) (collection s)))"
    and "total_pages r = \<lceil>real_of_int (total_chats r) / real_of_int limit\<rceil>"
    and "chats r = map stringify_id (take (nat limit) (drop (nat ((page - 1) * limit))
           (sort_key (\<lambda>d. - created_at d) (filter (\<lambda>d. user_id d = uid) (collection s)))))"
proof -
  show v: "1 \<le> page \<and> 1 \<le> limit \<and> limit \<le> 100"
    using assms by (auto simp add: get_user_chats_def io_defs split: if_splits)
  have "get_user_chats ev uid page limit s =
      (fst (get_user_chats ev uid page limit s), snd (get_user_chats ev uid page limit s))"
    by simp
  with assms v have r: "r = \<lparr>uc_user_id = uid,
         chats = map stringify_id (take (nat limit) (drop (nat ((page - 1) * limit))
           (sort_key (\<lambda>d. - created_at d) (filter (\<lambda>d. user_id d = uid) (collection s))))),
         uc_page = page, uc_limit = limit,
         total_chats = int (length (filter (\<lambda>d. user_id d = uid) (collection s))),
         total_pages = \<lceil>real_of_int (int (length (filter (\<lambda>d. user_id d = uid) (collection s))))
                          / real_of_int limit\<rceil>\<rparr>"
    by (simp add: get_user_chats_valid Let_def split: if_splits)
  show "total_chats r = int (length (filter (\<lambda>d. user_id d = uid) (collection s)))"
    by (simp add: r)
  show "total_pages r = \<lceil>real_of_int (total_chats r) / real_of_int limit\<rceil>"
    by (simp add: r)
  show "chats r = map stringify_id (take (nat limit) (drop (nat ((page - 1) * limit))
           (sort_key (\<lambda>d. - created_at d) (filter (\<lambda>d. user_id d = uid) (collection s)))))"
    by (simp add: r)
qed

text \<open>The ceiling of a quotient of integers, in integer arithmetic.\<close>

lemma ceil_div_int:
  fixes a b :: int
  assumes "0 < b"
  shows "- ((- a) div b) = (a + b - 1) div b"
proof (cases "a mod b = 0")
  case True
  have "a + b - 1 = b * (a div b) + (b - 1)"
    using True by (simp add: algebra_simps mod_eq_0_iff_dvd)
  then have "(a + b - 1) div b = a div b"
    using assms by (intro int_div_pos_eq[where r = "b - 1"]) auto
  then show ?thesis using True assms by (simp add: zdiv_zminus1_eq_if)
next
  case False
  have "0 \<le> a mod b" and u: "a mod b < b" using assms by simp_all
  with False have m: "0 < a mod b" "a mod b < b" by simp_all
  have "a + b - 1 = b * (a div b + 1) + (a mod b - 1)"
    by (simp add: algebra_simps)
  then have "(a + b - 1) div b = a div b + 1"
    using m by (intro int_div_pos_eq[where r = "a mod b - 1"]) auto
  then show ?thesis using False assms by (simp add: zdiv_zminus1_eq_if)
qed

lemma ceiling_as_div:
  assumes "0 < b"
  shows "\<lceil>real_of_int a / real_of_int b\<rceil> = (a + b - 1) div b"
  using ceil_div_int[OF assms, of a] by (simp add: ceiling_divide_eq_div)

lemma str_int_2: "str_int 2 = ''2''"
  by code_simp

lemma str_int_1: "str_int 1 = ''1''"
  by code_simp

lemma ceiling_tenth: "\<lceil>1 / (10::real)\<rceil> = 1"
  by (rule ceiling_unique) simp_all

lemma fifteen_page_2:
  "fst (get_user_chats example_env ''u2'' 2 10 fifteen_chats) =
     Inr \<lparr>uc_user_id = ''u2'',
          chats =
         [\<lparr>user_id = ''u2'',
           messages = [\<lparr>sender = ''a'', msg_text = ''m4'', timestamp = 4000\<rparr>],
           created_at = 4000, ident = ''000000000000000000000004''\<rparr>,
          \<lparr>user_id = ''u2'',
           messages = [\<lparr>sender = ''a'', msg_text = ''m3'', timestamp = 3000\<rparr>],
           created_at = 3000, ident = ''000000000000000000000003''\<rparr>,
          \<lparr>user_id = ''u2'',
           messages = [\<lparr>sender = ''a'', msg_text = ''m2'', timestamp = 2000\<rparr>],
           created_at = 2000, ident = ''000000000000000000000002''\<rparr>,
          \<lparr>user_id = ''u2'',
           messages = [\<lparr>sender = ''a'', msg_text = ''m1'', timestamp = 1000\<rparr>],
           created_at = 1000, ident = ''000000000000000000000001''\<rparr>,
          \<lparr>user_id = ''u2'',
           messages = [\<lparr>sender = ''a'', msg_text = ''m0'', timestamp = 0\<rparr>],
           created_at = 0, ident = ''000000000000000000000000''\<rparr>],
          uc_page = 2, uc_limit = 10, total_chats = 15, total_pages = 2\<rparr>"
  by code_simp

text \<open>
  C3. The claim: \<^verbatim>\<open>list_user_chats\<close> fails with status 404 exactly when
  \<open>page > total_pages\<close> and \<open>total_pages > 0\<close>, and succeeds with an empty list when
  the user has no chats. The code on a collection with one chat of user \<open>u1\<close>, at
  page 2 with limit 10, for every environment: \<open>total_pages\<close> is 1, the
  \<^verbatim>\<open>HTTPException\<close> with status 404 is raised inside the \<^verbatim>\<open>try\<close>, and the response
  is the \<^verbatim>\<open>HTTPException\<close> with status 500 that \<^verbatim>\<open>except Exception\<close> raises in its
  place. (The part on a user without chats holds: \<open>get_user_chats_no_chats\<close>.)
\<close>

theorem page_out_of_range_answers_500:
  "fst (get_user_chats ev ''u1'' 2 10 one_chat) =
     Inl (HTTPException 500 (''Error retrieving chats: '' @ str_exc ev
       (HTTPException 404 ''Page 2 does not exist. Total pages: 1'')))"
  by (simp add: get_user_chats_valid one_chat_def example_doc_def str_int_2 str_int_1
      Let_def ceiling_tenth)

text \<open>
  C4. In every successful response of \<^verbatim>\<open>get_user_chats\<close>, \<open>total_chats\<close> is the
  number of stored chats of the requested user and \<open>total_pages\<close> is the ceiling of
  \<open>total_chats / limit\<close>, which is \<open>(total_chats + limit - 1) div limit\<close> in integer
  arithmetic; \<open>total_pages\<close> is 0 when (and only when) \<open>total_chats\<close> is 0.
\<close>

theorem total_pages_is_ceiling:
  assumes "fst (get_user_chats ev uid page limit s) = Inr r"
  shows "total_chats r = int (length (filter (\<lambda>d. user_id d = uid) (collection s))) \<and>
         total_pages r = \<lceil>real_of_int (total_chats r) / real_of_int limit\<rceil> \<and>
         total_pages r = (total_chats r + limit - 1) div limit \<and>
         (total_chats r = 0) = (total_pages r = 0)"
proof -
  note f = get_user_chats_success[OF assms]
  from f(1) have l: "0 < limit" by simp
  have c: "total_pages r = (total_chats r + limit - 1) div limit"
    using f(3) ceiling_as_div[OF l] by simp
  have n: "0 \<le> total_chats r" using f(2) by simp
  have z: "(total_chats r = 0) = (total_pages r = 0)"
  proof
    assume "total_chats r = 0"
    then show "total_pages r = 0" using c l by simp
  next
    assume "total_pages r = 0"
    then have "(total_chats r + limit - 1) div limit = 0" using c by simp
    then have "total_chats r + limit - 1 < limit"
      using l n by (auto simp add: zdiv_eq_0_iff)
    then show "total_chats r = 0" using n by simp
  qed
  show ?thesis using f(2) f(3) c z by simp
qed

text \<open>Fifteen chats of one user, page 2 of 10 per page: 15 chats, 2 pages.\<close>

theorem total_pages_is_ceiling_witness:
  "\<exists>r. fst (get_user_chats example_env ''u2'' 2 10 fifteen_chats) = Inr r \<and>
       total_chats r = 15 \<and> total_pages r = 2 \<and> total_pages r = \<lceil>15 / (10::real)\<rceil>"
  using total_pages_is_ceiling [OF fifteen_page_2] fifteen_page_2 by simp

text \<open>
  C5. In every successful response of \<^verbatim>\<open>get_user_chats\<close> (so \<open>page \<ge> 1\<close> and
  \<open>limit\<close> is in \<open>[1, 100]\<close>), the returned chats are the slice from
  \<open>(page - 1) * limit\<close> of length \<open>limit\<close> of the user's chats ordered by creation
  time, most recent first: chat by chat they have the \<^verbatim>\<open>user_id\<close> (the requested
  one), the messages and the creation time of the chats of this window, and as
  \<^verbatim>\<open>_id\<close> the string of their identifier. The cursor's \<^verbatim>\<open>sort\<close> is applied
  before its \<^verbatim>\<open>skip\<close> and \<^verbatim>\<open>limit\<close>, although it is chained last.
\<close>

theorem page_window_newest_first:
  assumes "fst (get_user_chats ev uid page limit s) = Inr r"
  shows "let ordered = sort_key (\<lambda>d. - created_at d)
                         (filter (\<lambda>d. user_id d = uid) (collection s));
             window = take (nat limit) (drop (nat ((page - 1) * limit)) ordered)
         in chats r = map stringify_id window \<and>
            map user_id (chats r) = map user_id window \<and>
            map user_id (chats r) = replicate (length (chats r)) uid \<and>
            map messages (chats r) = map messages window \<and>
            map created_at (chats r) = map created_at window \<and>
            map (\<lambda>c. Oid (ident c)) (chats r) = map ident window \<and>
            length (chats r) = min (nat limit) (length ordered - nat ((page - 1) * limit)) \<and>
            sorted_wrt (\<lambda>a b. created_at a \<ge> created_at b) ordered \<and>
            mset ordered = mset (filter (\<lambda>d. user_id d = uid) (collection s)) \<and>
            1 \<le> page \<and> 1 \<le> limit \<and> limit \<le> 100"
proof -
  define ordered where
    "ordered = sort_key (\<lambda>d. - created_at d) (filter (\<lambda>d. user_id d = uid) (collection s))"
  define window where "window = take (nat limit) (drop (nat ((page - 1) * limit)) ordered)"
  note f = get_user_chats_success[OF assms]
  have c: "chats r = map stringify_id window"
    using f(4) by (simp add: window_def ordered_def)
  have "sorted (map (\<lambda>d. - created_at d) ordered)"
    unfolding ordered_def by (rule sorted_sort_key)
  then have o: "sorted_wrt (\<lambda>a b. created_at a \<ge> created_at b) ordered"
    by (simp add: sorted_map)
  have m: "mset ordered = mset (filter (\<lambda>d. user_id d = uid) (collection s))"
    by (simp add: ordered_def)
  have "set window \<subseteq> set ordered"
    unfolding window_def by (meson set_take_subset set_drop_subset subset_trans)
  also have "set ordered = set (filter (\<lambda>d. user_id d = uid) (collection s))"
    using m by (rule mset_eq_setD)
  finally have u: "\<forall>d \<in> set window. user_id d = uid" by auto
  have u1: "map user_id (chats r) = map user_id window"
    by (simp add: c stringify_id_def comp_def)
  have u2: "map user_id (chats r) = replicate (length (chats r)) uid"
    using u by (simp add: c stringify_id_def map_replicate_const [symmetric] cong: map_cong)
  have g: "map messages (chats r) = map messages window"
    by (simp add: c stringify_id_def comp_def)
  have t: "map created_at (chats r) = map created_at window"
    by (simp add: c stringify_id_def comp_def)
  have i: "map (\<lambda>c. Oid (ident c)) (chats r) = map ident window"
  proof -
    have "Oid (str_ObjectId x) = x" for x
      by (cases x) (simp add: str_ObjectId_def)
    then show ?thesis by (simp add: c stringify_id_def comp_def)
  qed
  have l: "length (chats r) = min (nat limit) (length ordered - nat ((page - 1) * limit))"
    by (simp add: c window_def)
  show ?thesis
    unfolding Let_def ordered_def [symmetric] window_def [symmetric]
    using c u1 u2 g t i l o m f(1) by blast
qed

text \<open>
  Page 2 of the fifteen chats: the five oldest, the most recent of them first, each
  with its user, its message, its creation time and its identifier.
\<close>

theorem page_window_newest_first_witness:
  "\<exists>r. fst (get_user_chats example_env ''u2'' 2 10 fifteen_chats) = Inr r \<and>
       chats r =
         [\<lparr>user_id = ''u2'',
           messages = [\<lparr>sender = ''a'', msg_text = ''m4'', timestamp = 4000\<rparr>],
           created_at = 4000, ident = ''000000000000000000000004''\<rparr>,
          \<lparr>user_id = ''u2'',
           messages = [\<lparr>sender = ''a'', msg_text = ''m3'', timestamp = 3000\<rparr>],
           created_at = 3000, ident = ''000000000000000000000003''\<rparr>,
          \<lparr>user_id = ''u2'',
           messages = [\<lparr>sender = ''a'', msg_text = ''m2'', timestamp = 2000\<rparr>],
           created_at = 2000, ident = ''000000000000000000000002''\<rparr>,
          \<lparr>user_id = ''u2'',
           messages = [\<lparr>sender = ''a'', msg_text = ''m1'', timestamp = 1000\<rparr>],
           created_at = 1000, ident = ''000000000000000000000001''\<rparr>,
          \<lparr>user_id = ''u2'',
           messages = [\<lparr>sender = ''a'', msg_text = ''m0'', timestamp = 0\<rparr>],
           created_at = 0, ident = ''000000000000000000000000''\<rparr>] \<and>
       map created_at (chats r) = [4000, 3000, 2000, 1000, 0] \<and>
       map user_id (chats r) = replicate 5 ''u2''"
proof -
  have n: "replicate 5 ''u2'' = [''u2'', ''u2'', ''u2'', ''u2'', ''u2'']"
    by code_simp
  show ?thesis
    using page_window_newest_first [OF fifteen_page_2] fifteen_page_2
    by (simp add: n)
qed

subsection \<open>Deletion\<close>

lemma remove_first_no_match: "find P xs = None \<Longrightarrow> remove_first P xs = xs"
  by (induction xs) (auto split: if_splits)

lemma remove_first_remove1: "find P xs = Some d \<Longrightarrow> remove_first P xs = remove1 d xs \<and> d \<in> set xs \<and> P d"
  by (induction xs) (auto split: if_splits)

text \<open>A well-formed identifier: \<^verbatim>\<open>delete_chat\<close> is one \<^verbatim>\<open>delete_one\<close>, by identifier and, for
  a truthy \<^verbatim>\<open>user_id\<close>, by owner.\<close>

lemma delete_chat_valid:
  "is_valid c \<Longrightarrow> delete_chat ev c u s =
     (let q = (if truthy u then \<lparr>q_id = Some (Oid (map lower c)), q_user_id = u\<rparr>
               else \<lparr>q_id = Some (Oid (map lower c)), q_user_id = None\<rparr>)
      in case find (matches q) (collection s) of
           None \<Rightarrow>
             (Inl (HTTPException 500 (''Error deleting chat: '' @ str_exc ev
                (HTTPException 404 (''Chat not found'' @
                   (if truthy u then '' or not associated with the specified user'' else []))))),
              logged Delete_one s)
         | Some d \<Rightarrow>
             (Inr \<lparr>del_message = ''Chat deleted successfully!'', del_deleted_count = 1\<rparr>,
              (logged Delete_one s)\<lparr>collection := remove_first (matches q) (collection s)\<rparr>))"
  by (simp add: delete_chat_def io_defs ObjectId_def delete_one_def Let_def split: option.splits)

lemma collection_logged [simp]: "collection (logged x s) = collection s"
  by (simp add: logged_def)

text \<open>What a call of \<^verbatim>\<open>delete_chat\<close> does to the collection.\<close>

lemma delete_chat_collection:
  "collection (snd (delete_chat ev c u s)) =
     (if is_valid c
      then remove_first
             (matches (if truthy u then \<lparr>q_id = Some (Oid (map lower c)), q_user_id = u\<rparr>
                       else \<lparr>q_id = Some (Oid (map lower c)), q_user_id = None\<rparr>))
             (collection s)
      else collection s)"
  by (auto simp add: delete_chat_valid delete_chat_invalid Let_def remove_first_no_match
      split: option.splits)

lemma remove_first_cases:
  "remove_first P xs = xs \<or> (\<exists>d \<in> set xs. remove_first P xs = remove1 d xs)"
proof (cases "find P xs")
  case None
  then show ?thesis by (simp add: remove_first_no_match)
next
  case (Some d)
  then show ?thesis using remove_first_remove1[OF Some] by blast
qed

lemma delete_example:
  "delete_chat example_env example_id (Some []) one_chat =
    (Inr \<lparr>del_message = ''Chat deleted successfully!'', del_deleted_count = 1\<rparr>,
     \<lparr>collection = [], store_log = [Delete_one], api_log = []\<rparr>)"
  by code_simp

text \<open>
  C6. The claim: \<^verbatim>\<open>delete_chat\<close> with a mismatched owner leaves the record intact
  and reports not-found; with no owner it removes the chat matching the identifier
  alone; at most one record is deleted in a call. As stated it fails where the owner
  supplied is the empty string: the filter by owner is added only
  \<^verbatim>\<open>if user_id:\<close>, so the chat of user \<open>u1\<close> is deleted, with status 200.
\<close>

theorem delete_chat_owner_guard_counterexample:
  "user_id example_doc \<noteq> [] \<and> example_doc \<in> set (collection one_chat) \<and>
   ident example_doc = Oid example_id \<and>
   collection (snd (delete_chat example_env example_id (Some []) one_chat)) = [] \<and>
   collection (snd (delete_chat example_env example_id (Some []) one_chat)) \<noteq> collection one_chat \<and>
   http_status (fst (delete_chat example_env example_id (Some []) one_chat)) = 200"
  unfolding delete_example by (simp add: one_chat_def example_doc_def)

text \<open>
  C6, as amended. For a well-formed identifier: with an owner that is not the empty
  string and differs from the \<^verbatim>\<open>user_id\<close> of every record with this identifier, the
  collection is unchanged and the call does not return a success; with no owner the
  collection loses the first record with this identifier, whoever its user is, and
  the call returns \<open>deleted_count = 1\<close> when there is such a record. For any
  identifier and owner, the collection afterwards is the one before, or the one
  before without one of its records.
\<close>

theorem delete_chat_owner_guard:
  assumes "is_valid conversation_id"
  shows
   "(owner \<noteq> [] \<and>
      (\<forall>d \<in> set (collection s). ident d = Oid (map lower conversation_id) \<longrightarrow> user_id d \<noteq> owner)
     \<longrightarrow> collection (snd (delete_chat ev conversation_id (Some owner) s)) = collection s \<and>
          isl (fst (delete_chat ev conversation_id (Some owner) s))) \<and>
    collection (snd (delete_chat ev conversation_id None s)) =
      remove_first (\<lambda>d. ident d = Oid (map lower conversation_id)) (collection s) \<and>
    ((\<exists>d \<in> set (collection s). ident d = Oid (map lower conversation_id)) \<longrightarrow>
       fst (delete_chat ev conversation_id None s) =
         Inr \<lparr>del_message = ''Chat deleted successfully!'', del_deleted_count = 1\<rparr>) \<and>
    (collection (snd (delete_chat ev any_id uid s)) = collection s \<or>
     (\<exists>d \<in> set (collection s).
        collection (snd (delete_chat ev any_id uid s)) = remove1 d (collection s)))"
proof (intro conjI impI)
  assume a: "owner \<noteq> [] \<and>
      (\<forall>d \<in> set (collection s). ident d = Oid (map lower conversation_id) \<longrightarrow> user_id d \<noteq> owner)"
  then have "find (\<lambda>d. ident d = Oid (map lower conversation_id) \<and> user_id d = owner) (collection s) = None"
    by (auto simp add: find_None_iff)
  with a assms show "collection (snd (delete_chat ev conversation_id (Some owner) s)) = collection s"
    and "isl (fst (delete_chat ev conversation_id (Some owner) s))"
    by (simp_all add: delete_chat_valid truthy_def)
next
  show "collection (snd (delete_chat ev conversation_id None s)) =
      remove_first (\<lambda>d. ident d = Oid (map lower conversation_id)) (collection s)"
    using assms by (simp add: delete_chat_collection truthy_def)
next
  assume "\<exists>d \<in> set (collection s). ident d = Oid (map lower conversation_id)"
  then obtain d where "find (\<lambda>d. ident d = Oid (map lower conversation_id)) (collection s) = Some d"
    by (cases "find (\<lambda>d. ident d = Oid (map lower conversation_id)) (collection s)")
       (auto simp add: find_None_iff)
  then show "fst (delete_chat ev conversation_id None s) =
         Inr \<lparr>del_message = ''Chat deleted successfully!'', del_deleted_count = 1\<rparr>"
    using assms by (simp add: delete_chat_valid truthy_def)
next
  show "collection (snd (delete_chat ev any_id uid s)) = collection s \<or>
     (\<exists>d \<in> set (collection s).
        collection (snd (delete_chat ev any_id uid s)) = remove1 d (collection s))"
    by (simp add: delete_chat_collection remove_first_cases)
qed

text \<open>One chat of user \<open>u1\<close>: the owner \<open>u2\<close> deletes nothing, no owner deletes it.\<close>

theorem delete_chat_owner_guard_witness:
  "is_valid example_id \<and>
   collection one_chat = [example_doc] \<and>
   ident example_doc = Oid (map lower example_id) \<and>
   user_id example_doc = ''u1'' \<and>
   collection (snd (delete_chat example_env example_id (Some ''u2'') one_chat)) = collection one_chat \<and>
   isl (fst (delete_chat example_env example_id (Some ''u2'') one_chat)) \<and>
   collection (snd (delete_chat example_env example_id None one_chat)) = [] \<and>
   fst (delete_chat example_env example_id None one_chat) =
     Inr \<lparr>del_message = ''Chat deleted successfully!'', del_deleted_count = 1\<rparr>"
proof -
  note t = delete_chat_owner_guard [OF example_id_valid, where owner = "''u2''" and s = one_chat
      and ev = example_env and any_id = example_id and uid = None]
  have h1: "''u2'' \<noteq> [] \<and>
    (\<forall>d \<in> set (collection one_chat). ident d = Oid (map lower example_id) \<longrightarrow> user_id d \<noteq> ''u2'')"
    by (simp add: one_chat_def example_doc_def)
  have h2: "\<exists>d \<in> set (collection one_chat). ident d = Oid (map lower example_id)"
    by (simp add: one_chat_def example_doc_def example_id_lower)
  have r: "remove_first (\<lambda>d. ident d = Oid (map lower example_id)) (collection one_chat) = []"
    by (simp add: one_chat_def example_doc_def example_id_lower)
  have e: "collection one_chat = [example_doc] \<and>
    ident example_doc = Oid (map lower example_id) \<and> user_id example_doc = ''u1''"
    by (simp add: one_chat_def example_doc_def example_id_lower)
  from t h1 h2 r e example_id_valid show ?thesis by auto
qed

text \<open>
  C7. The claim: when \<^verbatim>\<open>delete_chat\<close> deletes no record, the response has status
  404 and the detail \<^verbatim>\<open>Chat not found\<close>, or
  \<^verbatim>\<open>Chat not found or not associated with the specified user\<close> when an owner was
  supplied. The code on an empty collection, for every environment: the
  \<^verbatim>\<open>HTTPException\<close> with status 404 and these details is raised inside the
  \<^verbatim>\<open>try\<close>, and the response is the \<^verbatim>\<open>HTTPException\<close> with status 500 and a detail
  that starts with \<^verbatim>\<open>Error deleting chat: \<close> which \<^verbatim>\<open>except Exception\<close> raises
  in its place.
\<close>

theorem delete_nothing_answers_500:
  "fst (delete_chat ev example_id None (s\<lparr>collection := []\<rparr>)) =
     Inl (HTTPException 500
       (''Error deleting chat: '' @ str_exc ev (HTTPException 404 ''Chat not found''))) \<and>
   fst (delete_chat ev example_id (Some ''u1'') (s\<lparr>collection := []\<rparr>)) =
     Inl (HTTPException 500
       (''Error deleting chat: '' @ str_exc ev
          (HTTPException 404 ''Chat not found or not associated with the specified user'')))"
  by (simp add: delete_chat_valid example_id_valid truthy_def)

text \<open>
  C10. \<^verbatim>\<open>delete_chat\<close> with the empty string as \<^verbatim>\<open>user_id\<close> is \<^verbatim>\<open>delete_chat\<close>
  with no \<^verbatim>\<open>user_id\<close>: the same response and the same state. For a well-formed
  identifier the collection loses the first record with this identifier, whoever
  its user is.
\<close>

theorem delete_chat_empty_owner:
  "delete_chat ev conversation_id (Some []) s = delete_chat ev conversation_id None s \<and>
   (is_valid conversation_id \<longrightarrow>
      collection (snd (delete_chat ev conversation_id (Some []) s)) =
        remove_first (\<lambda>d. ident d = Oid (map lower conversation_id)) (collection s))"
proof -
  have e: "delete_chat ev conversation_id (Some []) s = delete_chat ev conversation_id None s"
    by (simp add: delete_chat_def truthy_def)
  show ?thesis
    by (simp add: e delete_chat_collection truthy_def)
qed

text \<open>The chat of user \<open>u1\<close> is deleted by a call with the empty string as owner.\<close>

theorem delete_chat_empty_owner_witness:
  "is_valid example_id \<and>
   delete_chat example_env example_id (Some []) one_chat =
     delete_chat example_env example_id None one_chat \<and>
   collection (snd (delete_chat example_env example_id (Some []) one_chat)) = []"
proof -
  note t = delete_chat_empty_owner [of example_env example_id one_chat]
  have r: "remove_first (\<lambda>d. ident d = Oid (map lower example_id)) (collection one_chat) = []"
    by (simp add: one_chat_def example_doc_def example_id_lower)
  from t r example_id_valid show ?thesis by auto
qed

subsection \<open>Summarization\<close>

lemma api_log_logged [simp]: "api_log (logged x s) = api_log s"
  by (simp add: logged_def)




subsection \<open>Round trip\<close>












end
